theory Spec2Isabelle
  imports Complex_Main
begin

section \<open>BloxFruit stock monitor: a model of main.py\<close>

text \<open>
  The program polls a stock API, compares a digest of the answer with the digest of the
  previous answer and, when they differ, posts a notification to every registered webhook.
  Three module-level variables hold its state; two HTTP handlers add and remove webhooks.

  Conventions of the model:
  \<^item> a value decoded from JSON is a \<open>json\<close>; Python's \<open>None\<close> is \<open>JNull\<close>;
  \<^item> string literals of the source that start with an emoji are written without it, and
    the Vietnamese texts are not reproduced (no property below reads them);
  \<^item> an exception is a value of type \<open>error\<close>, returned on the left of a sum;
  \<^item> the calls into the requests library and into hashlib are parameters: what the
    network answers and what MD5 computes are not part of this program.
\<close>

subsection \<open>Values and the Python operations used on them\<close>

datatype json =
    JNull
  | JBool bool
  | JInt int
  | JFloat real
  | JStr string
  | JList "json list"
  | JDict "(string \<times> json) list"

text \<open>
  A dict is kept as an association list read with \<open>map_of\<close>; a key that occurs twice
  counts once. A float stands for its value (the non-finite floats are left out).
\<close>

datatype error =
    TypeError
  | KeyError
  | AttributeError
  | ValueError
  | RecursionError
  | HTTPException nat string

text \<open>Truth value of an object, as \<open>if data:\<close> and \<open>not data\<close> test it.\<close>

fun truthy :: "json \<Rightarrow> bool" where
  "truthy JNull = False"
| "truthy (JBool b) = b"
| "truthy (JInt i) = (i \<noteq> 0)"
| "truthy (JFloat r) = (r \<noteq> 0)"
| "truthy (JStr s) = (s \<noteq> [])"
| "truthy (JList xs) = (xs \<noteq> [])"
| "truthy (JDict kvs) = (kvs \<noteq> [])"

text \<open>\<open>s.startswith(p)\<close>\<close>

fun startswith :: "string \<Rightarrow> string \<Rightarrow> bool" where
  "startswith s [] = True"
| "startswith [] (p # ps) = False"
| "startswith (c # s) (p # ps) = (c = p \<and> startswith s ps)"

text \<open>\<open>k in s\<close> for two strings: \<open>k\<close> occurs in \<open>s\<close> as a substring.\<close>

fun str_contains :: "string \<Rightarrow> string \<Rightarrow> bool" where
  "str_contains [] k = (k = [])"
| "str_contains (c # s) k = (startswith (c # s) k \<or> str_contains s k)"

text \<open>
  \<open>k in c\<close> for a string \<open>k\<close>: a key of a dict, an element of a list, a substring
  of a string; every other object is not iterable.
\<close>

fun py_in :: "string \<Rightarrow> json \<Rightarrow> error + bool" where
  "py_in k (JDict kvs) = Inr (k \<in> set (map fst kvs))"
| "py_in k (JList xs) = Inr (JStr k \<in> set xs)"
| "py_in k (JStr s) = Inr (str_contains s k)"
| "py_in k JNull = Inl TypeError"
| "py_in k (JBool b) = Inl TypeError"
| "py_in k (JInt i) = Inl TypeError"
| "py_in k (JFloat r) = Inl TypeError"

text \<open>
  \<open>c[k]\<close> for a string \<open>k\<close>: a dict looks the key up; lists and strings want an
  integer index, the other objects are not subscriptable.
\<close>

fun py_getitem :: "json \<Rightarrow> string \<Rightarrow> error + json" where
  "py_getitem (JDict kvs) k = (case map_of kvs k of None \<Rightarrow> Inl KeyError | Some v \<Rightarrow> Inr v)"
| "py_getitem (JList xs) k = Inl TypeError"
| "py_getitem (JStr s) k = Inl TypeError"
| "py_getitem JNull k = Inl TypeError"
| "py_getitem (JBool b) k = Inl TypeError"
| "py_getitem (JInt i) k = Inl TypeError"
| "py_getitem (JFloat r) k = Inl TypeError"

text \<open>\<open>len(c)\<close>\<close>

fun py_len :: "json \<Rightarrow> error + nat" where
  "py_len (JList xs) = Inr (length xs)"
| "py_len (JDict kvs) = Inr (length (remdups (map fst kvs)))"
| "py_len (JStr s) = Inr (length s)"
| "py_len JNull = Inl TypeError"
| "py_len (JBool b) = Inl TypeError"
| "py_len (JInt i) = Inl TypeError"
| "py_len (JFloat r) = Inl TypeError"

text \<open>
  The objects a \<open>for\<close> loop over \<open>c\<close> visits: the elements of a list, the keys of a
  dict, the characters of a string.
\<close>

fun py_iter :: "json \<Rightarrow> error + json list" where
  "py_iter (JList xs) = Inr xs"
| "py_iter (JDict kvs) = Inr (map JStr (remdups (map fst kvs)))"
| "py_iter (JStr s) = Inr (map (\<lambda>c. JStr [c]) s)"
| "py_iter JNull = Inl TypeError"
| "py_iter (JBool b) = Inl TypeError"
| "py_iter (JInt i) = Inl TypeError"
| "py_iter (JFloat r) = Inl TypeError"

text \<open>\<open>item.get(k, default)\<close>: only a dict has the method.\<close>

fun py_get :: "json \<Rightarrow> string \<Rightarrow> json \<Rightarrow> error + json" where
  "py_get (JDict kvs) k d = Inr (case map_of kvs k of None \<Rightarrow> d | Some v \<Rightarrow> v)"
| "py_get (JList xs) k d = Inl AttributeError"
| "py_get (JStr s) k d = Inl AttributeError"
| "py_get JNull k d = Inl AttributeError"
| "py_get (JBool b) k d = Inl AttributeError"
| "py_get (JInt i) k d = Inl AttributeError"
| "py_get (JFloat r) k d = Inl AttributeError"

subsection \<open>The global state\<close>

text \<open>
  \<open>previous_data_hash\<close>, \<open>monitoring_active\<close> and \<open>webhook_urls\<close> (lines 14 to 16).
  The digest is a hex string or \<open>None\<close>; the webhooks are a Python set.
\<close>

record state =
  previous_data_hash :: "string option"
  monitoring_active :: bool
  webhook_urls :: "string set"

definition initial_state :: state where
  "initial_state = \<lparr>previous_data_hash = None, monitoring_active = False, webhook_urls = {}\<rparr>"

subsection \<open>Fetching (lines 18 to 26)\<close>

text \<open>
  What \<open>requests.get\<close> and the two calls on its response can do. The request raises a
  \<open>RequestException\<close> (no connection, timeout, too many redirects), or a response comes
  back with a status code and a body. \<open>raise_for_status\<close> raises \<open>HTTPError\<close>, a
  \<open>RequestException\<close>, for the codes from 400 to 599. \<open>response.json\<close> returns the
  decoded body, or raises \<open>JSONDecodeError\<close> on a body that is not JSON (a
  \<open>RequestException\<close> since requests 2.27), or raises an exception of the decoder that
  is no \<open>RequestException\<close>: \<open>ValueError\<close> on an integer of too many digits,
  \<open>RecursionError\<close> on a body nested too deeply.
\<close>

datatype body =
    Decoded json
  | Not_Json
  | Decoder_Raises error

datatype http_outcome =
    Request_Failed
  | Response nat body

definition raise_for_status :: "nat \<Rightarrow> bool" where
  "raise_for_status code = (400 \<le> code \<and> code < 600)"

text \<open>
  \<open>except RequestException\<close> turns the first three failures into \<open>None\<close>; any other
  exception leaves the function.
\<close>

fun get_bloxfruit_data :: "http_outcome \<Rightarrow> error + json" where
  "get_bloxfruit_data Request_Failed = Inr JNull"
| "get_bloxfruit_data (Response code b) =
     (if raise_for_status code then Inr JNull
      else case b of Decoded j \<Rightarrow> Inr j | Not_Json \<Rightarrow> Inr JNull | Decoder_Raises e \<Rightarrow> Inl e)"

subsection \<open>Change detection (lines 28 to 48)\<close>

text \<open>
  \<open>digest data\<close> stands for
  \<open>hashlib.md5(json.dumps(data, sort_keys=True).encode()).hexdigest()\<close>.
\<close>

definition get_data_hash :: "(json \<Rightarrow> string) \<Rightarrow> json \<Rightarrow> string option" where
  "get_data_hash digest data = (if \<not> truthy data then None else Some (digest data))"

text \<open>The result is the returned flag and the state with \<open>previous_data_hash\<close> as left.\<close>

definition has_data_changed :: "(json \<Rightarrow> string) \<Rightarrow> json \<Rightarrow> state \<Rightarrow> bool \<times> state" where
  "has_data_changed digest data s =
     (let current_hash = get_data_hash digest data in
      if previous_data_hash s = None
      then (True, s\<lparr>previous_data_hash := current_hash\<rparr>)
      else if current_hash \<noteq> previous_data_hash s
      then (True, s\<lparr>previous_data_hash := current_hash\<rparr>)
      else (False, s))"

subsection \<open>Building the embeds (lines 55 to 126)\<close>

text \<open>
  One display field of an embed. The source renders the name and the two prices into
  strings with f-strings; the model keeps the interpolated objects themselves.
\<close>

record field =
  field_name :: json
  field_usd :: json
  field_robux :: json
  field_inline :: bool

text \<open>
  An embed. \<open>description\<close> holds the number interpolated into the text of a stock embed
  and is \<open>None\<close> for the fixed text of the general update; \<open>embed_fields\<close> is the key
  \<open>fields\<close>, and \<open>None\<close> where the dict has no such key. The timestamp is read from the
  clock and left out.
\<close>

record embed =
  title :: string
  description :: "nat option"
  color :: nat
  footer :: string
  embed_fields :: "field list option"

text \<open>
  The two stock blocks of the source are the same text up to the key, the title, the
  colour and the footer, which are collected here.
\<close>

record stock_kind =
  stock_key :: string
  stock_title :: string
  stock_color :: nat
  stock_footer :: string

definition normal_stock :: stock_kind where
  "normal_stock = \<lparr>stock_key = ''normal_stock'', stock_title = ''Normal Stock Update'',
     stock_color = 0x3498db, stock_footer = ''BloxFruit Monitor - Normal Stock''\<rparr>"

definition mirage_stock :: stock_kind where
  "mirage_stock = \<lparr>stock_key = ''mirage_stock'', stock_title = ''Mirage Stock Update'',
     stock_color = 0xe74c3c, stock_footer = ''BloxFruit Monitor - Mirage Stock''\<rparr>"

text \<open>The body of \<open>for item in items\<close>: three \<open>item.get\<close> calls and one append.\<close>

definition item_field :: "json \<Rightarrow> error + field" where
  "item_field item =
     (case py_get item ''name'' (JStr ''Unknown'') of Inl e \<Rightarrow> Inl e | Inr name \<Rightarrow>
     (case py_get item ''usd_price'' (JStr ''N/A'') of Inl e \<Rightarrow> Inl e | Inr usd_price \<Rightarrow>
     (case py_get item ''robux_price'' (JStr ''N/A'') of Inl e \<Rightarrow> Inl e | Inr robux_price \<Rightarrow>
      Inr \<lparr>field_name = name, field_usd = usd_price, field_robux = robux_price,
            field_inline = True\<rparr>)))"

fun item_fields :: "json list \<Rightarrow> field list \<Rightarrow> error + field list" where
  "item_fields [] acc = Inr acc"
| "item_fields (item # items) acc =
     (case item_field item of Inl e \<Rightarrow> Inl e | Inr f \<Rightarrow> item_fields items (acc @ [f]))"

text \<open>The test \<open>key in data and "items" in data[key]\<close>, evaluated from the left.\<close>

definition has_items :: "string \<Rightarrow> json \<Rightarrow> error + bool" where
  "has_items key data =
     (case py_in key data of Inl e \<Rightarrow> Inl e | Inr b \<Rightarrow>
        if b then (case py_getitem data key of Inl e \<Rightarrow> Inl e | Inr sec \<Rightarrow> py_in ''items'' sec)
        else Inr False)"

text \<open>One stock block: the embeds it appends, none or one.\<close>

definition stock_embed :: "stock_kind \<Rightarrow> json \<Rightarrow> error + embed list" where
  "stock_embed k data =
     (case has_items (stock_key k) data of Inl e \<Rightarrow> Inl e | Inr b \<Rightarrow>
      if \<not> b then Inr [] else
     (case py_getitem data (stock_key k) of Inl e \<Rightarrow> Inl e | Inr sec \<Rightarrow>
     (case py_getitem sec ''items'' of Inl e \<Rightarrow> Inl e | Inr items \<Rightarrow>
     (case py_len items of Inl e \<Rightarrow> Inl e | Inr n \<Rightarrow>
     (case py_iter items of Inl e \<Rightarrow> Inl e | Inr xs \<Rightarrow>
     (case item_fields xs [] of Inl e \<Rightarrow> Inl e | Inr fs \<Rightarrow>
      Inr [\<lparr>title = stock_title k, description = Some n, color = stock_color k,
             footer = stock_footer k, embed_fields = Some fs\<rparr>]))))))"

definition general_update :: embed where
  "general_update = \<lparr>title = ''BloxFruit Stock Update'', description = None,
     color = 0x95a5a6, footer = ''BloxFruit Monitor Bot'', embed_fields = None\<rparr>"

definition build_embeds :: "json \<Rightarrow> error + embed list" where
  "build_embeds data =
     (case stock_embed normal_stock data of Inl e \<Rightarrow> Inl e | Inr normal \<Rightarrow>
     (case stock_embed mirage_stock data of Inl e \<Rightarrow> Inl e | Inr mirage \<Rightarrow>
      let embeds = normal @ mirage in
      Inr (if embeds = [] then [general_update] else embeds)))"

subsection \<open>Posting to the webhooks (lines 128 to 152)\<close>

record payload =
  username :: string
  avatar_url :: string
  embeds :: "embed list"

definition make_payload :: "embed list \<Rightarrow> payload" where
  "make_payload es = \<lparr>username = ''BloxFruit Monitor'',
     avatar_url = ''https://cdn.discordapp.com/emojis/123456789.png'', embeds = es\<rparr>"

text \<open>
  What the function does to the outside, in order: one \<open>requests.post\<close> per webhook,
  recorded with its result, and the summary line with the two counters.
\<close>

datatype event =
    Sent string payload
  | Send_Failed string payload
  | Summary nat nat

text \<open>
  \<open>post url p\<close> tells whether \<open>requests.post\<close> followed by \<open>raise_for_status\<close> went
  through; otherwise a \<open>RequestException\<close> was raised, which the loop catches.
  The loop runs over the webhooks in the order in which the set yields them.
\<close>

fun post_all :: "(string \<Rightarrow> payload \<Rightarrow> bool) \<Rightarrow> payload \<Rightarrow> string list \<Rightarrow> nat \<Rightarrow> event list
    \<Rightarrow> nat \<times> event list" where
  "post_all post p [] success_count out = (success_count, out)"
| "post_all post p (webhook_url # rest) success_count out =
     (if post webhook_url p
      then post_all post p rest (success_count + 1) (out @ [Sent webhook_url p])
      else post_all post p rest success_count (out @ [Send_Failed webhook_url p]))"

text \<open>
  A Python set has no specified iteration order: \<open>order\<close> is the order in which the
  set \<open>urls\<close> is traversed by this call. The result is what the function returns or
  raises, and what it did.
\<close>

definition send_discord_webhook ::
    "(string \<Rightarrow> payload \<Rightarrow> bool) \<Rightarrow> string list \<Rightarrow> json \<Rightarrow> string set
     \<Rightarrow> (error + bool) \<times> event list" where
  "send_discord_webhook post order data urls =
     (if \<not> truthy data \<or> urls = {} then (Inr False, [])
      else case build_embeds data of Inl e \<Rightarrow> (Inl e, []) | Inr es \<Rightarrow>
        let p = make_payload es;
            total_webhooks = card urls;
            (success_count, out) = post_all post p order 0 []
        in (Inr (success_count > 0), out @ [Summary success_count total_webhooks]))"

text \<open>\<open>order\<close> is an iteration of the set \<open>urls\<close>: every member once.\<close>

definition iterates :: "string list \<Rightarrow> string set \<Rightarrow> bool" where
  "iterates order urls = (distinct order \<and> set order = urls)"

subsection \<open>The monitor (lines 154 to 194)\<close>

text \<open>What the outside does during one pass of the loop.\<close>

record tick =
  fetched :: http_outcome
  post_result :: "string \<Rightarrow> payload \<Rightarrow> bool"
  set_order :: "string list"

text \<open>
  The body of the \<open>while\<close> loop, without the sleep. An exception leaves the body with
  the state as it is at that point.
\<close>

definition monitor_iteration ::
    "(json \<Rightarrow> string) \<Rightarrow> tick \<Rightarrow> state \<Rightarrow> (error + unit) \<times> state \<times> event list" where
  "monitor_iteration digest t s =
     (case get_bloxfruit_data (fetched t) of
        Inl e \<Rightarrow> (Inl e, s, [])
      | Inr data \<Rightarrow>
          if truthy data then
            (case has_data_changed digest data s of (changed, s') \<Rightarrow>
               if changed then
                 (case send_discord_webhook (post_result t) (set_order t) data (webhook_urls s') of
                    (Inl e, out) \<Rightarrow> (Inl e, s', out)
                  | (Inr success, out) \<Rightarrow> (Inr (), s', out))
               else (Inr (), s', []))
          else (Inr (), s, []))"

text \<open>
  The loop, run on the passes the outside provides; \<open>except Exception\<close> clears the
  flag and ends the task. The result has the state, \<open>check_count\<close> and what was done.
\<close>

fun monitor_loop ::
    "(json \<Rightarrow> string) \<Rightarrow> tick list \<Rightarrow> state \<Rightarrow> nat \<Rightarrow> event list \<Rightarrow> state \<times> nat \<times> event list" where
  "monitor_loop digest [] s check_count out = (s, check_count, out)"
| "monitor_loop digest (t # ts) s check_count out =
     (if monitoring_active s then
        (case monitor_iteration digest t s of
           (Inl e, s', out') \<Rightarrow> (s'\<lparr>monitoring_active := False\<rparr>, check_count + 1, out @ out')
         | (Inr u, s', out') \<Rightarrow> monitor_loop digest ts s' (check_count + 1) (out @ out'))
      else (s, check_count, out))"

definition monitor_task :: "(json \<Rightarrow> string) \<Rightarrow> tick list \<Rightarrow> state \<Rightarrow> state \<times> nat \<times> event list" where
  "monitor_task digest ts s = monitor_loop digest ts (s\<lparr>monitoring_active := True\<rparr>) 0 []"

subsection \<open>The handlers (lines 211 to 241 and 270 to 289)\<close>

record response =
  status_code :: nat
  content :: "(string \<times> json) list"

datatype task = Monitor_Task

text \<open>
  A handler returns its response or raises, and leaves the new state; adding a webhook
  also leaves the background tasks of the request.
\<close>

definition add_webhook_and_start_monitoring ::
    "string \<Rightarrow> task list \<Rightarrow> state \<Rightarrow> (error + response) \<times> task list \<times> state" where
  "add_webhook_and_start_monitoring webhook background_tasks s =
     (if webhook = [] then
        (Inl (HTTPException 400 ''Webhook URL is required''), background_tasks, s)
      else if \<not> startswith webhook ''https://discord.com/api/webhooks/'' then
        (Inl (HTTPException 400 ''Invalid Discord webhook URL''), background_tasks, s)
      else
        let s' = s\<lparr>webhook_urls := insert webhook (webhook_urls s)\<rparr>;
            (background_tasks', message) =
              (if \<not> monitoring_active s
               then (background_tasks @ [Monitor_Task], ''BloxFruit stock monitoring started!'')
               else (background_tasks, ''Webhook added to existing monitoring''))
        in (Inr \<lparr>status_code = 200, content =
               [(''message'', JStr message),
                (''webhook_added'', JStr webhook),
                (''total_webhooks'', JInt (int (card (webhook_urls s')))),
                (''check_interval'', JStr ''30 seconds'')]\<rparr>,
            background_tasks', s'))"

definition remove_webhook :: "string \<Rightarrow> state \<Rightarrow> (error + response) \<times> state" where
  "remove_webhook webhook s =
     (if webhook = [] then (Inl (HTTPException 400 ''Webhook URL is required''), s)
      else if webhook \<in> webhook_urls s then
        let s' = s\<lparr>webhook_urls := webhook_urls s - {webhook}\<rparr>
        in (Inr \<lparr>status_code = 200, content =
               [(''message'', JStr ''Webhook removed successfully''),
                (''webhook_removed'', JStr webhook),
                (''remaining_webhooks'', JInt (int (card (webhook_urls s'))))]\<rparr>, s')
      else (Inl (HTTPException 404 ''Webhook not found''), s))"

subsection \<open>Reading what was done\<close>

text \<open>The event that one pass of the posting loop leaves for a webhook.\<close>

definition post_event :: "(string \<Rightarrow> payload \<Rightarrow> bool) \<Rightarrow> payload \<Rightarrow> string \<Rightarrow> event" where
  "post_event post p u = (if post u p then Sent u p else Send_Failed u p)"

fun event_url :: "event \<Rightarrow> string option" where
  "event_url (Sent u p) = Some u"
| "event_url (Send_Failed u p) = Some u"
| "event_url (Summary k n) = None"

fun is_sent :: "event \<Rightarrow> bool" where
  "is_sent (Sent u p) = True"
| "is_sent (Send_Failed u p) = False"
| "is_sent (Summary k n) = False"

fun is_send_failed :: "event \<Rightarrow> bool" where
  "is_send_failed (Sent u p) = False"
| "is_send_failed (Send_Failed u p) = True"
| "is_send_failed (Summary k n) = False"

text \<open>
  A snapshot as the stock API sends it: a dict in which a section, when present, is a dict
  whose \<open>items\<close>, when present, is a list of item dicts. \<open>section_is kvs key items\<close>
  reads one section of the snapshot \<open>kvs\<close>: it has no item list (\<open>None\<close>), or it has
  this one.
\<close>

definition section_is ::
    "(string \<times> json) list \<Rightarrow> string \<Rightarrow> (string \<times> json) list list option \<Rightarrow> bool" where
  "section_is kvs key items =
     (case map_of kvs key of
        None \<Rightarrow> items = None
      | Some (JDict sec) \<Rightarrow>
          map_of sec ''items'' = map_option (\<lambda>its. JList (map JDict its)) items
      | Some _ \<Rightarrow> False)"

text \<open>How many times a webhook was posted to.\<close>

definition attempts_to :: "string \<Rightarrow> event list \<Rightarrow> nat" where
  "attempts_to u out = length (filter (\<lambda>e. event_url e = Some u) out)"

text \<open>A fetch that fails: the request raised, or the status is one \<open>raise_for_status\<close> rejects.\<close>

definition fetch_failed :: "http_outcome \<Rightarrow> bool" where
  "fetch_failed r =
     (case r of Request_Failed \<Rightarrow> True | Response code b \<Rightarrow> raise_for_status code)"


subsection \<open>Values for the examples\<close>

text \<open>A stand-in for the digest where an example has to name one.\<close>

fun example_digest :: "json \<Rightarrow> string" where
  "example_digest (JStr s) = s"
| "example_digest j = ''d41d8cd98f00b204e9800998ecf8427e''"

text \<open>
  Two snapshots: an empty normal stock next to two mirage fruits, and both stocks empty.
\<close>

definition both_stocks :: json where
  "both_stocks = JDict
     [(''normal_stock'', JDict [(''items'', JList [])]),
      (''mirage_stock'', JDict [(''items'', JList
         [JDict [(''name'', JStr ''Kitsune''), (''usd_price'', JInt 30), (''robux_price'', JInt 4000)],
          JDict [(''name'', JStr ''Dragon'')]])])]"

definition empty_stocks :: json where
  "empty_stocks = JDict
     [(''normal_stock'', JDict [(''items'', JList [])]),
      (''mirage_stock'', JDict [(''items'', JList [])])]"

text \<open>Three webhooks, and a network on which the second one cannot be reached.\<close>

definition hook1 :: string where "hook1 = ''https://discord.com/api/webhooks/1''"
definition hook2 :: string where "hook2 = ''https://discord.com/api/webhooks/2''"
definition hook3 :: string where "hook3 = ''https://discord.com/api/webhooks/3''"

fun example_post :: "string \<Rightarrow> payload \<Rightarrow> bool" where
  "example_post u p = (u \<noteq> ''https://discord.com/api/webhooks/2'')"

section \<open>Properties\<close>

subsection \<open>Change detection\<close>

text \<open>
  C5. For a non-empty snapshot and no stored digest, the first call of the change detector
  reports a change, whatever the content, and stores the digest of the snapshot; a second
  call on the same snapshot reports no change and leaves the stored digest as it is.
\<close>

theorem first_call_changed_second_unchanged:
  assumes "truthy data" and "previous_data_hash s = None"
  shows "has_data_changed digest data s = (True, s\<lparr>previous_data_hash := Some (digest data)\<rparr>)
       \<and> has_data_changed digest data (s\<lparr>previous_data_hash := Some (digest data)\<rparr>)
           = (False, s\<lparr>previous_data_hash := Some (digest data)\<rparr>)"
  using assms by (simp add: has_data_changed_def get_data_hash_def)

theorem first_call_changed_second_unchanged_witness:
  "truthy (JStr ''stock'') \<and> previous_data_hash initial_state = None
   \<and> has_data_changed example_digest (JStr ''stock'') initial_state
       = (True, initial_state\<lparr>previous_data_hash := Some ''stock''\<rparr>)
   \<and> has_data_changed example_digest (JStr ''stock'')
         (initial_state\<lparr>previous_data_hash := Some ''stock''\<rparr>)
       = (False, initial_state\<lparr>previous_data_hash := Some ''stock''\<rparr>)"
  using first_call_changed_second_unchanged [of "JStr ''stock''" initial_state example_digest]
  by (simp add: initial_state_def)

text \<open>
  C2 as stated fails: called on \<open>None\<close> with a digest stored, the change detector
  returns \<open>True\<close> and overwrites the stored digest with \<open>None\<close>.
\<close>

theorem empty_snapshot_reports_changed:
  "has_data_changed example_digest JNull
     \<lparr>previous_data_hash = Some ''0cc175b9'', monitoring_active = True, webhook_urls = {}\<rparr>
   = (True, \<lparr>previous_data_hash = None, monitoring_active = True, webhook_urls = {}\<rparr>)"
  by (simp add: has_data_changed_def get_data_hash_def)

text \<open>
  C2, amended. On an absent or empty snapshot the change detector itself always reports a
  change and sets the stored digest to \<open>None\<close>. It is the monitor that keeps such a
  snapshot away from it: a pass of the loop whose fetched data is absent or empty leaves
  the whole state, the stored digest included, as it was, and sends nothing.
\<close>

theorem empty_snapshot_detector_and_pass:
  assumes "\<not> truthy data"
  shows "has_data_changed digest data s = (True, s\<lparr>previous_data_hash := None\<rparr>)
       \<and> (get_bloxfruit_data (fetched t) = Inr data
            \<longrightarrow> monitor_iteration digest t s = (Inr (), s, []))"
  using assms by (simp add: has_data_changed_def get_data_hash_def monitor_iteration_def)

theorem empty_snapshot_detector_and_pass_witness:
  "\<not> truthy (JDict [])
   \<and> has_data_changed example_digest (JDict [])
        \<lparr>previous_data_hash = Some ''0cc175b9'', monitoring_active = True, webhook_urls = {}\<rparr>
      = (True, \<lparr>previous_data_hash = None, monitoring_active = True, webhook_urls = {}\<rparr>)
   \<and> monitor_iteration example_digest
        \<lparr>fetched = Response 200 (Decoded (JDict [])), post_result = (\<lambda>u p. True), set_order = []\<rparr>
        \<lparr>previous_data_hash = Some ''0cc175b9'', monitoring_active = True, webhook_urls = {}\<rparr>
      = (Inr (), \<lparr>previous_data_hash = Some ''0cc175b9'', monitoring_active = True, webhook_urls = {}\<rparr>, [])"
  using empty_snapshot_detector_and_pass [of "JDict []" example_digest
     "\<lparr>previous_data_hash = Some ''0cc175b9'', monitoring_active = True, webhook_urls = {}\<rparr>"
     "\<lparr>fetched = Response 200 (Decoded (JDict [])), post_result = (\<lambda>u p. True), set_order = []\<rparr>"]
  by (simp add: raise_for_status_def)

subsection \<open>Posting to the webhooks\<close>

lemma post_all_unfold:
  "post_all post p us c out =
     (c + length (filter (\<lambda>u. post u p) us), out @ map (post_event post p) us)"
  by (induction us arbitrary: c out) (simp_all add: post_event_def)

lemma event_url_post_event: "event_url (post_event post p u) = Some u"
  by (simp add: post_event_def)

lemma attempts_to_posts:
  "attempts_to u (map (post_event post p) us) = length (filter (\<lambda>v. v = u) us)"
  by (induction us) (simp_all add: attempts_to_def event_url_post_event)

lemma filter_eq_distinct:
  "distinct us \<Longrightarrow> u \<in> set us \<Longrightarrow> length (filter (\<lambda>v. v = u) us) = 1"
  by (induction us) (auto simp: filter_empty_conv)

lemma sent_posts:
  "length (filter is_sent (map (post_event post p) us)) = length (filter (\<lambda>u. post u p) us)"
  by (induction us) (simp_all add: post_event_def)

lemma failed_posts:
  "length (filter is_send_failed (map (post_event post p) us))
     = length (filter (\<lambda>u. \<not> post u p) us)"
  by (induction us) (simp_all add: post_event_def)

lemma send_discord_webhook_built:
  assumes "truthy data" and "urls \<noteq> {}" and "build_embeds data = Inr es"
  shows "send_discord_webhook post order data urls =
     (Inr (0 < length (filter (\<lambda>u. post u (make_payload es)) order)),
      map (post_event post (make_payload es)) order
        @ [Summary (length (filter (\<lambda>u. post u (make_payload es)) order)) (card urls)])"
  using assms by (simp add: send_discord_webhook_def post_all_unfold Let_def)

lemma build_embeds_plain:
  "build_embeds (JDict [(''status'', JStr ''ok'')]) = Inr [general_update]"
  by (simp add: build_embeds_def stock_embed_def has_items_def normal_stock_def
      mirage_stock_def)

text \<open>
  C9. When the data is absent or empty, \<open>send_discord_webhook\<close> returns \<open>False\<close> at
  once and posts to no webhook, also when webhooks are registered.
\<close>

theorem empty_data_no_delivery:
  assumes "\<not> truthy data" and "urls \<noteq> {}"
  shows "send_discord_webhook post order data urls = (Inr False, [])"
  using assms by (simp add: send_discord_webhook_def)

theorem empty_data_no_delivery_witness:
  "\<not> truthy JNull \<and> {hook1} \<noteq> {}
   \<and> send_discord_webhook example_post [hook1] JNull {hook1} = (Inr False, [])"
  using empty_data_no_delivery [of JNull "{hook1}" example_post "[hook1]"]
  by simp

text \<open>
  C3. \<open>send_discord_webhook\<close> returns \<open>True\<close> exactly when at least one post to a
  webhook went through; with no webhook it returns \<open>False\<close>.
\<close>

theorem success_iff_some_delivery:
  "(fst (send_discord_webhook post order data urls) = Inr True)
     = (\<exists>u p. Sent u p \<in> set (snd (send_discord_webhook post order data urls)))
   \<and> send_discord_webhook post order data {} = (Inr False, [])"
proof -
  have "(fst (send_discord_webhook post order data urls) = Inr True)
     = (\<exists>u p. Sent u p \<in> set (snd (send_discord_webhook post order data urls)))"
  proof (cases "\<not> truthy data \<or> urls = {}")
    case True
    then show ?thesis by (auto simp: send_discord_webhook_def)
  next
    case False
    show ?thesis
    proof (cases "build_embeds data")
      case (Inl e)
      with False show ?thesis by (simp add: send_discord_webhook_def)
    next
      case (Inr es)
      have sent: "(\<exists>u q. Sent u q \<in> set (map (post_event post p) us)) = (\<exists>u\<in>set us. post u p)"
        for p us
        by (auto simp: post_event_def image_iff split: if_splits)
      have "(0 < length (filter (\<lambda>u. post u p) us)) = (\<exists>u\<in>set us. post u p)" for p us
        by (simp add: filter_empty_conv)
      with False Inr sent show ?thesis
        by (simp add: send_discord_webhook_built)
    qed
  qed
  moreover have "send_discord_webhook post order data {} = (Inr False, [])"
    by (simp add: send_discord_webhook_def)
  ultimately show ?thesis by simp
qed

theorem success_iff_some_delivery_witness:
  "fst (send_discord_webhook example_post [hook2, hook3] (JDict [(''status'', JStr ''ok'')])
          {hook2, hook3}) = Inr True
   \<and> Sent hook3 (make_payload [general_update])
        \<in> set (snd (send_discord_webhook example_post [hook2, hook3]
                  (JDict [(''status'', JStr ''ok'')]) {hook2, hook3}))
   \<and> fst (send_discord_webhook example_post [hook2] (JDict [(''status'', JStr ''ok'')])
          {hook2}) = Inr False
   \<and> send_discord_webhook example_post [hook2, hook3] (JDict [(''status'', JStr ''ok'')]) {}
       = (Inr False, [])"
  using success_iff_some_delivery [of example_post "[hook2, hook3]"
      "JDict [(''status'', JStr ''ok'')]" "{hook2, hook3}"]
  by (simp add: send_discord_webhook_built [OF _ _ build_embeds_plain] post_event_def
      hook1_def hook2_def hook3_def)

text \<open>
  C4. With webhooks registered and the embeds \<open>es\<close> built from the data,
  \<open>send_discord_webhook\<close> posts the whole payload, that is the user name, the avatar
  and all of \<open>es\<close>, to every webhook exactly once, whether or not the posts to the
  others fail; the counter of the summary is the number of posts that went through, the
  return value tells whether it is positive, and the failed posts make up the rest.
\<close>

theorem each_webhook_posted_once:
  assumes "truthy data" and "build_embeds data = Inr es"
    and "urls \<noteq> {}" and "iterates order urls"
  shows "let p = \<lparr>username = ''BloxFruit Monitor'',
                  avatar_url = ''https://cdn.discordapp.com/emojis/123456789.png'',
                  embeds = es\<rparr>;
             posts = map (post_event post p) order;
             success_count = length (filter is_sent posts)
         in send_discord_webhook post order data urls
              = (Inr (0 < success_count), posts @ [Summary success_count (card urls)])
          \<and> success_count + length (filter is_send_failed posts) = card urls
          \<and> (\<forall>u\<in>urls. attempts_to u posts = 1)"
proof -
  let ?p = "\<lparr>username = ''BloxFruit Monitor'',
              avatar_url = ''https://cdn.discordapp.com/emojis/123456789.png'',
              embeds = es\<rparr>"
  let ?posts = "map (post_event post ?p) order"
  let ?k = "length (filter (\<lambda>u. post u ?p) order)"
  have p: "make_payload es = ?p"
    by (simp add: make_payload_def)
  have run: "send_discord_webhook post order data urls
      = (Inr (0 < ?k), ?posts @ [Summary ?k (card urls)])"
    using assms send_discord_webhook_built [of data urls es post order]
    by (simp add: p)
  have d: "distinct order" and s: "set order = urls"
    using assms by (simp_all add: iterates_def)
  have sent: "length (filter is_sent ?posts) = ?k"
    by (rule sent_posts)
  have failed: "length (filter is_send_failed ?posts) = length (filter (\<lambda>u. \<not> post u ?p) order)"
    by (rule failed_posts)
  have len: "card urls = length order"
    using d s distinct_card by fastforce
  have total: "?k + length (filter (\<lambda>u. \<not> post u ?p) order) = length order"
    by (rule sum_length_filter_compl)
  have once: "\<forall>u\<in>urls. attempts_to u ?posts = 1"
    using d s by (simp add: attempts_to_posts filter_eq_distinct)
  show ?thesis
    unfolding Let_def sent failed using run total len once by simp
qed

text \<open>Three webhooks of which the second fails: two successes, one failure, \<open>True\<close>.\<close>

theorem each_webhook_posted_once_witness:
  "truthy (JDict [(''status'', JStr ''ok'')])
   \<and> build_embeds (JDict [(''status'', JStr ''ok'')])
       = Inr [\<lparr>title = ''BloxFruit Stock Update'', description = None, color = 0x95a5a6,
                footer = ''BloxFruit Monitor Bot'', embed_fields = None\<rparr>]
   \<and> iterates [hook1, hook2, hook3] {hook1, hook2, hook3}
   \<and> send_discord_webhook example_post [hook1, hook2, hook3]
       (JDict [(''status'', JStr ''ok'')]) {hook1, hook2, hook3}
     = (Inr True,
        [Sent hook1
           \<lparr>username = ''BloxFruit Monitor'',
             avatar_url = ''https://cdn.discordapp.com/emojis/123456789.png'',
             embeds = [\<lparr>title = ''BloxFruit Stock Update'', description = None,
                         color = 0x95a5a6, footer = ''BloxFruit Monitor Bot'',
                         embed_fields = None\<rparr>]\<rparr>,
         Send_Failed hook2
           \<lparr>username = ''BloxFruit Monitor'',
             avatar_url = ''https://cdn.discordapp.com/emojis/123456789.png'',
             embeds = [\<lparr>title = ''BloxFruit Stock Update'', description = None,
                         color = 0x95a5a6, footer = ''BloxFruit Monitor Bot'',
                         embed_fields = None\<rparr>]\<rparr>,
         Sent hook3
           \<lparr>username = ''BloxFruit Monitor'',
             avatar_url = ''https://cdn.discordapp.com/emojis/123456789.png'',
             embeds = [\<lparr>title = ''BloxFruit Stock Update'', description = None,
                         color = 0x95a5a6, footer = ''BloxFruit Monitor Bot'',
                         embed_fields = None\<rparr>]\<rparr>,
         Summary 2 3])"
  using each_webhook_posted_once [of "JDict [(''status'', JStr ''ok'')]" "[general_update]"
      "{hook1, hook2, hook3}" "[hook1, hook2, hook3]" example_post]
  by (simp add: iterates_def build_embeds_plain Let_def post_event_def general_update_def
      hook1_def hook2_def hook3_def)

subsection \<open>Fetching\<close>

text \<open>
  C6. When the fetch fails, by an error of the transport or by a response with an error
  status, \<open>get_bloxfruit_data\<close> returns \<open>None\<close> and raises nothing, and the pass of the
  monitor that made the fetch leaves the state, the stored digest included, as it was.
\<close>

theorem failed_fetch_keeps_state:
  assumes "fetch_failed (fetched t)"
  shows "get_bloxfruit_data (fetched t) = Inr JNull
       \<and> monitor_iteration digest t s = (Inr (), s, [])
       \<and> previous_data_hash (fst (snd (monitor_iteration digest t s))) = previous_data_hash s"
proof -
  from assms have "get_bloxfruit_data (fetched t) = Inr JNull"
    by (cases "fetched t") (simp_all add: fetch_failed_def)
  then show ?thesis
    by (simp add: monitor_iteration_def)
qed

theorem failed_fetch_keeps_state_witness:
  "fetch_failed (Response 503 (Decoded (JStr ''busy'')))
   \<and> get_bloxfruit_data (Response 503 (Decoded (JStr ''busy''))) = Inr JNull
   \<and> monitor_iteration example_digest
        \<lparr>fetched = Response 503 (Decoded (JStr ''busy'')), post_result = example_post,
          set_order = [hook1]\<rparr>
        \<lparr>previous_data_hash = Some ''0cc175b9'', monitoring_active = True,
          webhook_urls = {hook1}\<rparr>
      = (Inr (), \<lparr>previous_data_hash = Some ''0cc175b9'', monitoring_active = True,
                  webhook_urls = {hook1}\<rparr>, [])"
  using failed_fetch_keeps_state [of
      "\<lparr>fetched = Response 503 (Decoded (JStr ''busy'')), post_result = example_post,
        set_order = [hook1]\<rparr>" example_digest
      "\<lparr>previous_data_hash = Some ''0cc175b9'', monitoring_active = True,
        webhook_urls = {hook1}\<rparr>"]
  by (simp add: fetch_failed_def raise_for_status_def)

subsection \<open>Building the embeds\<close>

lemma item_fields_dicts:
  "\<exists>fs. item_fields (map JDict its) acc = Inr fs \<and> length fs = length acc + length its"
proof (induction its arbitrary: acc)
  case Nil
  show ?case by simp
next
  case (Cons it its)
  obtain f where f: "item_field (JDict it) = Inr f"
    by (simp add: item_field_def)
  from Cons [of "acc @ [f]"] f show ?case by auto
qed

lemma has_items_absent:
  "map_of kvs key = None \<Longrightarrow> has_items key (JDict kvs) = Inr False"
  by (simp add: has_items_def map_of_eq_None_iff)

lemma has_items_present:
  assumes "map_of kvs key = Some (JDict sec)" and "map_of sec ''items'' = Some v"
  shows "has_items key (JDict kvs) = Inr True"
proof -
  from assms(1) have "key \<in> fst ` set kvs"
    by (force dest: map_of_SomeD)
  moreover from assms(2) have "''items'' \<in> fst ` set sec"
    by (force dest: map_of_SomeD)
  ultimately show ?thesis
    using assms(1) by (simp add: has_items_def)
qed

lemma has_items_no_list:
  assumes "map_of kvs key = Some (JDict sec)" and "map_of sec ''items'' = None"
  shows "has_items key (JDict kvs) = Inr False"
proof -
  from assms(1) have "key \<in> fst ` set kvs"
    by (force dest: map_of_SomeD)
  with assms show ?thesis
    by (simp add: has_items_def map_of_eq_None_iff)
qed

lemma stock_embed_absent:
  "map_of kvs (stock_key k) = None \<Longrightarrow> stock_embed k (JDict kvs) = Inr []"
  by (simp add: stock_embed_def has_items_absent)

lemma stock_embed_no_list:
  "map_of kvs (stock_key k) = Some (JDict sec) \<Longrightarrow> map_of sec ''items'' = None
    \<Longrightarrow> stock_embed k (JDict kvs) = Inr []"
  by (simp add: stock_embed_def has_items_no_list)

lemma stock_embed_present:
  assumes "map_of kvs (stock_key k) = Some (JDict sec)"
    and "map_of sec ''items'' = Some (JList (map JDict its))"
  shows "\<exists>fs. stock_embed k (JDict kvs) =
            Inr [\<lparr>title = stock_title k, description = Some (length its),
                  color = stock_color k, footer = stock_footer k, embed_fields = Some fs\<rparr>]
          \<and> length fs = length its"
proof -
  obtain fs where fs: "item_fields (map JDict its) [] = Inr fs" "length fs = length its"
    using item_fields_dicts [of its "[]"] by auto
  with assms show ?thesis
    by (simp add: stock_embed_def has_items_present)
qed

lemma stock_embed_section:
  assumes "section_is kvs (stock_key k) items"
  shows "\<exists>es. stock_embed k (JDict kvs) = Inr es
          \<and> map (\<lambda>e. (title e, map_option length (embed_fields e))) es
              = (case items of None \<Rightarrow> [] | Some its \<Rightarrow> [(stock_title k, Some (length its))])
          \<and> general_update \<notin> set es"
proof (cases items)
  case None
  with assms have "map_of kvs (stock_key k) = None
      \<or> (\<exists>sec. map_of kvs (stock_key k) = Some (JDict sec) \<and> map_of sec ''items'' = None)"
    by (auto simp: section_is_def split: option.splits json.splits)
  then have "stock_embed k (JDict kvs) = Inr []"
    by (auto simp: stock_embed_absent stock_embed_no_list)
  with None show ?thesis by simp
next
  case (Some its)
  with assms obtain sec where sec: "map_of kvs (stock_key k) = Some (JDict sec)"
      "map_of sec ''items'' = Some (JList (map JDict its))"
    by (auto simp: section_is_def split: option.splits json.splits)
  from stock_embed_present [OF sec] obtain fs where
    "stock_embed k (JDict kvs) =
       Inr [\<lparr>title = stock_title k, description = Some (length its),
             color = stock_color k, footer = stock_footer k, embed_fields = Some fs\<rparr>]"
    "length fs = length its"
    by blast
  with Some show ?thesis
    by (simp add: general_update_def)
qed

lemma normal_stock_sel:
  "stock_key normal_stock = ''normal_stock''" "stock_title normal_stock = ''Normal Stock Update''"
  by (simp_all add: normal_stock_def)

lemma mirage_stock_sel:
  "stock_key mirage_stock = ''mirage_stock''" "stock_title mirage_stock = ''Mirage Stock Update''"
  by (simp_all add: mirage_stock_def)

lemma build_embeds_shape:
  assumes "section_is kvs ''normal_stock'' ns" and "section_is kvs ''mirage_stock'' ms"
  shows "\<exists>es. build_embeds (JDict kvs) = Inr es
          \<and> map (\<lambda>e. (title e, map_option length (embed_fields e))) es
              = (if ns = None \<and> ms = None then [(''BloxFruit Stock Update'', None)]
                 else (case ns of None \<Rightarrow> []
                         | Some its \<Rightarrow> [(''Normal Stock Update'', Some (length its))])
                    @ (case ms of None \<Rightarrow> []
                         | Some its \<Rightarrow> [(''Mirage Stock Update'', Some (length its))]))
          \<and> (es = [general_update]) = (ns = None \<and> ms = None)"
proof -
  from assms(1) obtain n where n: "stock_embed normal_stock (JDict kvs) = Inr n"
      "map (\<lambda>e. (title e, map_option length (embed_fields e))) n
         = (case ns of None \<Rightarrow> [] | Some its \<Rightarrow> [(''Normal Stock Update'', Some (length its))])"
      "general_update \<notin> set n"
    using stock_embed_section [of kvs normal_stock ns]
    by (cases ns) (auto simp: normal_stock_sel)
  from assms(2) obtain m where m: "stock_embed mirage_stock (JDict kvs) = Inr m"
      "map (\<lambda>e. (title e, map_option length (embed_fields e))) m
         = (case ms of None \<Rightarrow> [] | Some its \<Rightarrow> [(''Mirage Stock Update'', Some (length its))])"
      "general_update \<notin> set m"
    using stock_embed_section [of kvs mirage_stock ms]
    by (cases ms) (auto simp: mirage_stock_sel)
  have build: "build_embeds (JDict kvs) = Inr (if n @ m = [] then [general_update] else n @ m)"
    using n(1) m(1) by (simp add: build_embeds_def)
  have empty: "(n @ m = []) = (ns = None \<and> ms = None)"
    using n(2) m(2) by (cases ns; cases ms) auto
  show ?thesis
  proof (cases "ns = None \<and> ms = None")
    case True
    with build empty show ?thesis by (simp add: general_update_def)
  next
    case False
    with empty have ne: "n @ m \<noteq> []" by simp
    have "n @ m \<noteq> [general_update]"
    proof
      assume "n @ m = [general_update]"
      then have "general_update \<in> set (n @ m)" by simp
      with n(3) m(3) show False by simp
    qed
    moreover from build ne have "build_embeds (JDict kvs) = Inr (n @ m)" by simp
    moreover have "map (\<lambda>e. (title e, map_option length (embed_fields e))) (n @ m)
        = (case ns of None \<Rightarrow> [] | Some its \<Rightarrow> [(''Normal Stock Update'', Some (length its))])
        @ (case ms of None \<Rightarrow> [] | Some its \<Rightarrow> [(''Mirage Stock Update'', Some (length its))])"
      using n(2) m(2) by simp
    ultimately show ?thesis using False by (intro exI [of _ "n @ m"]) simp
  qed
qed

text \<open>
  C1, amended. Called with a non-empty snapshot and at least one webhook,
  \<open>send_discord_webhook\<close> builds one embed for each of the two stock sections that is
  present in the snapshot with an item list, whatever the length of the list, with one
  field per item (none for an empty list); it builds the single general embed exactly when
  neither section has an item list; and these embeds are the ones it posts. An empty normal
  stock next to two mirage items gives two embeds, one without fields and one with two.
  For a snapshot that is empty altogether nothing is built: the function returns
  \<open>False\<close> before.
\<close>

theorem build_embeds_sections:
  assumes "section_is kvs ''normal_stock'' ns" and "section_is kvs ''mirage_stock'' ms"
  shows "if kvs = [] \<or> urls = {}
         then send_discord_webhook post order (JDict kvs) urls = (Inr False, [])
         else \<exists>es. build_embeds (JDict kvs) = Inr es
          \<and> map (\<lambda>e. (title e, map_option length (embed_fields e))) es
              = (if ns = None \<and> ms = None then [(''BloxFruit Stock Update'', None)]
                 else (case ns of None \<Rightarrow> []
                         | Some its \<Rightarrow> [(''Normal Stock Update'', Some (length its))])
                    @ (case ms of None \<Rightarrow> []
                         | Some its \<Rightarrow> [(''Mirage Stock Update'', Some (length its))]))
          \<and> (es = [\<lparr>title = ''BloxFruit Stock Update'', description = None, color = 0x95a5a6,
                      footer = ''BloxFruit Monitor Bot'', embed_fields = None\<rparr>])
              = (ns = None \<and> ms = None)
          \<and> snd (send_discord_webhook post order (JDict kvs) urls)
              = map (post_event post
                      \<lparr>username = ''BloxFruit Monitor'',
                        avatar_url = ''https://cdn.discordapp.com/emojis/123456789.png'',
                        embeds = es\<rparr>) order
                @ [Summary
                     (length (filter (\<lambda>u. post u
                        \<lparr>username = ''BloxFruit Monitor'',
                          avatar_url = ''https://cdn.discordapp.com/emojis/123456789.png'',
                          embeds = es\<rparr>) order))
                     (card urls)]"
proof (cases "kvs = [] \<or> urls = {}")
  case True
  then show ?thesis by (auto simp: send_discord_webhook_def)
next
  case False
  from build_embeds_shape [OF assms] obtain es where es: "build_embeds (JDict kvs) = Inr es"
      "map (\<lambda>e. (title e, map_option length (embed_fields e))) es
         = (if ns = None \<and> ms = None then [(''BloxFruit Stock Update'', None)]
            else (case ns of None \<Rightarrow> []
                    | Some its \<Rightarrow> [(''Normal Stock Update'', Some (length its))])
               @ (case ms of None \<Rightarrow> []
                    | Some its \<Rightarrow> [(''Mirage Stock Update'', Some (length its))]))"
      "(es = [general_update]) = (ns = None \<and> ms = None)"
    by blast
  from False have "truthy (JDict kvs)" and "urls \<noteq> {}" by simp_all
  from send_discord_webhook_built [OF this es(1), of post order]
  have "snd (send_discord_webhook post order (JDict kvs) urls)
      = map (post_event post (make_payload es)) order
        @ [Summary (length (filter (\<lambda>u. post u (make_payload es)) order)) (card urls)]"
    by simp
  with es False show ?thesis
    by (auto simp: make_payload_def general_update_def)
qed

theorem build_embeds_sections_witness:
  "section_is
     [(''normal_stock'', JDict [(''items'', JList [])]),
      (''mirage_stock'', JDict [(''items'', JList
         [JDict [(''name'', JStr ''Kitsune''), (''usd_price'', JInt 30), (''robux_price'', JInt 4000)],
          JDict [(''name'', JStr ''Dragon'')]])])]
     ''normal_stock'' (Some [])
   \<and> section_is
     [(''normal_stock'', JDict [(''items'', JList [])]),
      (''mirage_stock'', JDict [(''items'', JList
         [JDict [(''name'', JStr ''Kitsune''), (''usd_price'', JInt 30), (''robux_price'', JInt 4000)],
          JDict [(''name'', JStr ''Dragon'')]])])]
     ''mirage_stock''
     (Some [[(''name'', JStr ''Kitsune''), (''usd_price'', JInt 30), (''robux_price'', JInt 4000)],
            [(''name'', JStr ''Dragon'')]])
   \<and> \<not> isl (build_embeds both_stocks)
   \<and> map (\<lambda>e. (title e, map_option length (embed_fields e))) (projr (build_embeds both_stocks))
      = [(''Normal Stock Update'', Some 0), (''Mirage Stock Update'', Some 2)]
   \<and> snd (send_discord_webhook example_post [hook1] both_stocks {hook1})
      = [Sent hook1
           \<lparr>username = ''BloxFruit Monitor'',
             avatar_url = ''https://cdn.discordapp.com/emojis/123456789.png'',
             embeds = projr (build_embeds both_stocks)\<rparr>,
         Summary 1 1]"
  using build_embeds_sections [of
     "[(''normal_stock'', JDict [(''items'', JList [])]),
      (''mirage_stock'', JDict [(''items'', JList
         [JDict [(''name'', JStr ''Kitsune''), (''usd_price'', JInt 30), (''robux_price'', JInt 4000)],
          JDict [(''name'', JStr ''Dragon'')]])])]"
     "Some []"
     "Some [[(''name'', JStr ''Kitsune''), (''usd_price'', JInt 30), (''robux_price'', JInt 4000)],
            [(''name'', JStr ''Dragon'')]]"
     "{hook1}" example_post "[hook1]"]
  by (auto simp: section_is_def both_stocks_def post_event_def hook1_def)

text \<open>
  C1 as stated fails: a section with an empty item list still gets its embed, so the
  first snapshot yields two embeds instead of one, and the second yields two embeds
  without fields instead of the general one.
\<close>

theorem empty_section_still_gets_embed:
  "build_embeds both_stocks = Inr
     [\<lparr>title = ''Normal Stock Update'', description = Some 0, color = 0x3498db,
        footer = ''BloxFruit Monitor - Normal Stock'', embed_fields = Some []\<rparr>,
      \<lparr>title = ''Mirage Stock Update'', description = Some 2, color = 0xe74c3c,
        footer = ''BloxFruit Monitor - Mirage Stock'', embed_fields = Some
          [\<lparr>field_name = JStr ''Kitsune'', field_usd = JInt 30, field_robux = JInt 4000,
             field_inline = True\<rparr>,
           \<lparr>field_name = JStr ''Dragon'', field_usd = JStr ''N/A'', field_robux = JStr ''N/A'',
             field_inline = True\<rparr>]\<rparr>]
   \<and> build_embeds empty_stocks = Inr
     [\<lparr>title = ''Normal Stock Update'', description = Some 0, color = 0x3498db,
        footer = ''BloxFruit Monitor - Normal Stock'', embed_fields = Some []\<rparr>,
      \<lparr>title = ''Mirage Stock Update'', description = Some 0, color = 0xe74c3c,
        footer = ''BloxFruit Monitor - Mirage Stock'', embed_fields = Some []\<rparr>]"
  by (simp add: both_stocks_def empty_stocks_def build_embeds_def stock_embed_def
      has_items_def normal_stock_def mirage_stock_def item_field_def)

subsection \<open>The handlers and the monitor\<close>

lemma startswith_nonempty: "startswith w (p # ps) \<Longrightarrow> w \<noteq> []"
  by (cases w) simp_all








text \<open>
  C7 as stated fails: with the monitor active, registering a webhook that is already in
  the set is answered with "Webhook added to existing monitoring", and the answer is the
  one the same request gets when the set is empty; nothing in it reports that the webhook
  was present.
\<close>

theorem duplicate_reported_as_added:
  "add_webhook_and_start_monitoring hook1 []
      \<lparr>previous_data_hash = None, monitoring_active = True, webhook_urls = {hook1}\<rparr>
    = (Inr \<lparr>status_code = 200, content =
             [(''message'', JStr ''Webhook added to existing monitoring''),
              (''webhook_added'', JStr hook1),
              (''total_webhooks'', JInt 1),
              (''check_interval'', JStr ''30 seconds'')]\<rparr>,
       [],
       \<lparr>previous_data_hash = None, monitoring_active = True, webhook_urls = {hook1}\<rparr>)
   \<and> fst (add_webhook_and_start_monitoring hook1 []
        \<lparr>previous_data_hash = None, monitoring_active = True, webhook_urls = {}\<rparr>)
     = fst (add_webhook_and_start_monitoring hook1 []
        \<lparr>previous_data_hash = None, monitoring_active = True, webhook_urls = {hook1}\<rparr>)"
  by (simp add: add_webhook_and_start_monitoring_def hook1_def)

text \<open>
  C7, amended. Registering a webhook that is already in the set leaves the set, its
  count and the rest of the state as they were. The answer does not tell that the webhook
  was present: when the webhook passes the check of its prefix, it is the ordinary answer,
  status 200 with the count of the set and a message that depends only on
  \<open>monitoring_active\<close>, and in every case it is the answer that the same request gets
  in the state that differs only in not having this webhook in the set.
\<close>

theorem add_present_webhook:
  assumes "webhook \<in> webhook_urls s"
  shows "snd (add_webhook_and_start_monitoring webhook background_tasks s)
           = (if startswith webhook ''https://discord.com/api/webhooks/'' \<and> \<not> monitoring_active s
              then background_tasks @ [Monitor_Task] else background_tasks, s)
       \<and> (startswith webhook ''https://discord.com/api/webhooks/'' \<longrightarrow>
            fst (add_webhook_and_start_monitoring webhook background_tasks s)
              = Inr \<lparr>status_code = 200, content =
                  [(''message'', JStr (if monitoring_active s
                       then ''Webhook added to existing monitoring''
                       else ''BloxFruit stock monitoring started!'')),
                   (''webhook_added'', JStr webhook),
                   (''total_webhooks'', JInt (int (card (webhook_urls s)))),
                   (''check_interval'', JStr ''30 seconds'')]\<rparr>)
       \<and> fst (add_webhook_and_start_monitoring webhook background_tasks
                (s\<lparr>webhook_urls := webhook_urls s - {webhook}\<rparr>))
           = fst (add_webhook_and_start_monitoring webhook background_tasks s)"
proof -
  from assms have same: "s\<lparr>webhook_urls := insert webhook (webhook_urls s)\<rparr> = s"
    by (simp add: insert_absorb)
  have first: "fst (add_webhook_and_start_monitoring webhook background_tasks
        (s\<lparr>webhook_urls := webhook_urls s - {webhook}\<rparr>))
      = fst (add_webhook_and_start_monitoring webhook background_tasks s)"
    by (simp add: add_webhook_and_start_monitoring_def Let_def)
  show ?thesis
  proof (cases "startswith webhook ''https://discord.com/api/webhooks/''")
    case False
    with first show ?thesis by (simp add: add_webhook_and_start_monitoring_def)
  next
    case True
    then have "webhook \<noteq> []" by (rule startswith_nonempty)
    with True same first show ?thesis
      by (simp add: add_webhook_and_start_monitoring_def Let_def)
  qed
qed

theorem add_present_webhook_witness:
  "hook2 \<in> {hook1, hook2}
   \<and> startswith hook2 ''https://discord.com/api/webhooks/''
   \<and> add_webhook_and_start_monitoring hook2 []
        \<lparr>previous_data_hash = None, monitoring_active = False, webhook_urls = {hook1, hook2}\<rparr>
      = (Inr \<lparr>status_code = 200, content =
               [(''message'', JStr ''BloxFruit stock monitoring started!''),
                (''webhook_added'', JStr hook2),
                (''total_webhooks'', JInt 2),
                (''check_interval'', JStr ''30 seconds'')]\<rparr>,
         [Monitor_Task],
         \<lparr>previous_data_hash = None, monitoring_active = False, webhook_urls = {hook1, hook2}\<rparr>)
   \<and> fst (add_webhook_and_start_monitoring hook2 []
        \<lparr>previous_data_hash = None, monitoring_active = False, webhook_urls = {hook1}\<rparr>)
      = Inr \<lparr>status_code = 200, content =
               [(''message'', JStr ''BloxFruit stock monitoring started!''),
                (''webhook_added'', JStr hook2),
                (''total_webhooks'', JInt 2),
                (''check_interval'', JStr ''30 seconds'')]\<rparr>"
  using add_present_webhook [of hook2
      "\<lparr>previous_data_hash = None, monitoring_active = False, webhook_urls = {hook1, hook2}\<rparr>"
      "[]"]
  by (simp add: hook1_def hook2_def prod_eq_iff add_webhook_and_start_monitoring_def)

text \<open>
  C8 as stated fails for the empty string, which is in no set of webhooks: the handler
  answers 400, "Webhook URL is required", not 404.
\<close>

theorem remove_empty_is_400:
  "remove_webhook '''' initial_state
     = (Inl (HTTPException 400 ''Webhook URL is required''), initial_state)"
  by (simp add: remove_webhook_def)

text \<open>
  C8, amended. Removing a webhook that is not in the set raises and leaves the set, its
  count and the rest of the state as they were: 404, "Webhook not found", for a
  non-empty string, and 400, "Webhook URL is required", for the empty one.
\<close>

theorem remove_absent_webhook:
  assumes "webhook \<notin> webhook_urls s"
  shows "remove_webhook webhook s
           = (Inl (if webhook = [] then HTTPException 400 ''Webhook URL is required''
                   else HTTPException 404 ''Webhook not found''), s)"
  using assms by (simp add: remove_webhook_def)

theorem remove_absent_webhook_witness:
  "hook2 \<notin> {hook1}
   \<and> remove_webhook hook2
        \<lparr>previous_data_hash = None, monitoring_active = True, webhook_urls = {hook1}\<rparr>
      = (Inl (HTTPException 404 ''Webhook not found''),
         \<lparr>previous_data_hash = None, monitoring_active = True, webhook_urls = {hook1}\<rparr>)"
  using remove_absent_webhook [of hook2
      "\<lparr>previous_data_hash = None, monitoring_active = True, webhook_urls = {hook1}\<rparr>"]
  by (simp add: hook1_def hook2_def)

end
